theory Spec2Isabelle
  imports Main "HOL-Library.Multiset"
begin

section \<open>Strings\<close>

text \<open>
  A Python string is a sequence of Unicode code points and is modelled as a list of
  natural numbers. \<open>ustr\<close> turns a literal into such a list.
\<close>

type_synonym codepoint = nat

type_synonym pystr = "codepoint list"

definition ustr :: "string \<Rightarrow> pystr" where
  "ustr s = map of_char s"

text \<open>
  The characters for which \<^verbatim>\<open>str.isspace()\<close> holds, which are the ones
  \<^verbatim>\<open>str.strip()\<close> removes: the ASCII controls \<^verbatim>\<open>\t \n \v \f \r\<close>, the separators
  U+001C to U+001F, the space, U+0085, U+00A0, U+1680, U+2000 to U+200A, U+2028,
  U+2029, U+202F, U+205F and U+3000.
\<close>

definition is_space :: "codepoint \<Rightarrow> bool" where
  "is_space n =
     ((9 \<le> n \<and> n \<le> 13) \<or> (28 \<le> n \<and> n \<le> 32) \<or> n = 133 \<or> n = 160 \<or> n = 5760
      \<or> (8192 \<le> n \<and> n \<le> 8202) \<or> n = 8232 \<or> n = 8233 \<or> n = 8239 \<or> n = 8287
      \<or> n = 12288)"

text \<open>\<^verbatim>\<open>s.strip()\<close>: leading and trailing whitespace removed.\<close>

definition strip :: "pystr \<Rightarrow> pystr" where
  "strip s = rev (dropWhile is_space (rev (dropWhile is_space s)))"

text \<open>\<^verbatim>\<open>"".join(xs)\<close> for a list of strings \<open>xs\<close>.\<close>

definition join_empty :: "pystr list \<Rightarrow> pystr" where
  "join_empty xs = concat xs"

text \<open>Iterating over a Python string yields its characters as one-character strings.\<close>

definition chars_of :: "pystr \<Rightarrow> pystr list" where
  "chars_of s = map (\<lambda>c. [c]) s"

section \<open>The compiled pattern\<close>

text \<open>
  The class \<^verbatim>\<open>\d\<close> of a pattern over \<^verbatim>\<open>str\<close> is the set of Unicode decimal digits
  of the Unicode database of the interpreter. That table is not part of the scraper:
  the class is a parameter \<open>D\<close> of everything that matches. Two classes for the
  examples: the ASCII digits alone, and the ASCII digits with the Arabic-Indic digits
  U+0660 to U+0669.
\<close>

definition ascii_digit :: "codepoint \<Rightarrow> bool" where
  "ascii_digit n = (48 \<le> n \<and> n \<le> 57)"

definition sample_digit :: "codepoint \<Rightarrow> bool" where
  "sample_digit n = ((48 \<le> n \<and> n \<le> 57) \<or> (1632 \<le> n \<and> n \<le> 1641))"

text \<open>
  The fragment of regular expressions that \<^verbatim>\<open>bids\.asp\?ID=(\d+)\<close> is written in: a
  sequence of items, each a single atom (a literal character, escaped or not, or
  \<^verbatim>\<open>\d\<close>) or a capturing group holding one greedy \<^verbatim>\<open>+\<close> repetition of an atom.
\<close>

datatype atom = Lit codepoint | Digit

datatype re_item = One atom | GroupPlus atom

fun atom_matches :: "(codepoint \<Rightarrow> bool) \<Rightarrow> atom \<Rightarrow> codepoint \<Rightarrow> bool" where
  "atom_matches D (Lit x) c = (c = x)"
| "atom_matches D Digit c = D c"

text \<open>
  Greedy repetition with backtracking: \<open>plus_greedy D a k acc s\<close> has consumed \<open>acc\<close>,
  tries the longest run of \<open>a\<close> first, and hands the captured text and the rest of the
  subject to the continuation \<open>k\<close>, falling back to a shorter run when \<open>k\<close> fails.
\<close>

fun plus_greedy ::
  "(codepoint \<Rightarrow> bool) \<Rightarrow> atom \<Rightarrow> (pystr \<Rightarrow> pystr \<Rightarrow> 'a option) \<Rightarrow> pystr \<Rightarrow> pystr \<Rightarrow> 'a option" where
  "plus_greedy D a k acc [] = None"
| "plus_greedy D a k acc (c # cs) =
     (if atom_matches D a c
      then (case plus_greedy D a k (acc @ [c]) cs of
              Some r \<Rightarrow> Some r
            | None \<Rightarrow> k (acc @ [c]) cs)
      else None)"

text \<open>
  \<open>re_match D p s gs\<close> is \<^verbatim>\<open>p.match(s)\<close>: the pattern is tried at the start of the
  subject only and need not reach its end. The result is the list of captured groups.
\<close>

fun re_match :: "(codepoint \<Rightarrow> bool) \<Rightarrow> re_item list \<Rightarrow> pystr \<Rightarrow> pystr list \<Rightarrow> pystr list option" where
  "re_match D [] s gs = Some gs"
| "re_match D (One a # r) s gs =
     (case s of
        [] \<Rightarrow> None
      | c # cs \<Rightarrow> if atom_matches D a c then re_match D r cs gs else None)"
| "re_match D (GroupPlus a # r) s gs =
     plus_greedy D a (\<lambda>m rest. re_match D r rest (gs @ [m])) [] s"

definition detail_link :: pystr where
  "detail_link = ustr ''bids.asp?ID=''"

definition compiled_reg_exp :: "re_item list" where
  "compiled_reg_exp = map (\<lambda>c. One (Lit c)) detail_link @ [GroupPlus Digit]"

text \<open>
  The number of worker threads of the pool. The embedding is sequential: of the pool it
  keeps the order in which the futures complete.
\<close>

definition NUMBER_OF_THREADS :: nat where
  "NUMBER_OF_THREADS = 5"

text \<open>
  \<^verbatim>\<open>get_bid_id\<close>: group 1 of the match, \<open>None\<close> without a match. The pattern has
  one group, so a successful match always has a first group.
\<close>

definition get_bid_id :: "(codepoint \<Rightarrow> bool) \<Rightarrow> pystr \<Rightarrow> pystr option" where
  "get_bid_id D href =
     (case re_match D compiled_reg_exp href [] of
        None \<Rightarrow> None
      | Some gs \<Rightarrow> (case gs of [] \<Rightarrow> None | g # _ \<Rightarrow> Some g))"

section \<open>Documents\<close>

datatype exn = TransportFailure | QueryFailure | ParserError | IndexError | AttributeError

text \<open>
  A node of a parsed document is an element with its tag, its attributes, the text
  before its first child, its children and the text that follows it inside its parent
  (lxml's \<^verbatim>\<open>.text\<close> and \<^verbatim>\<open>.tail\<close>), or a comment with its tail.
\<close>

datatype node =
  Element pystr "(pystr \<times> pystr) list" "pystr option" "node list" "pystr option"
| Comment pystr "pystr option"

text \<open>
  \<^verbatim>\<open>lxml.html.fromstring\<close> is a library parser. The content of a page is modelled by
  what the parser makes of it: the root element of the document, or nothing, for a
  content such as the empty one on which the parser raises ParserError.
\<close>

datatype page_content = Unparsable | Document node

fun html_fromstring :: "page_content \<Rightarrow> exn + node" where
  "html_fromstring Unparsable = Inl ParserError"
| "html_fromstring (Document tree) = Inr tree"

fun has_tag :: "pystr \<Rightarrow> node \<Rightarrow> bool" where
  "has_tag t (Element t' _ _ _ _) = (t' = t)"
| "has_tag t (Comment _ _) = False"

fun child_nodes :: "node \<Rightarrow> node list" where
  "child_nodes (Element _ _ _ cs _) = cs"
| "child_nodes (Comment _ _) = []"

text \<open>\<^verbatim>\<open>element.text\<close>: \<open>None\<close> when the element does not start with text.\<close>

fun etext :: "node \<Rightarrow> pystr option" where
  "etext (Element _ _ tx _ _) = tx"
| "etext (Comment c _) = Some c"

fun etail :: "node \<Rightarrow> pystr option" where
  "etail (Element _ _ _ _ after) = after"
| "etail (Comment _ after) = after"

fun attr :: "pystr \<Rightarrow> node \<Rightarrow> pystr option" where
  "attr k (Element _ attrs _ _ _) = map_of attrs k"
| "attr k (Comment _ _) = None"

fun opt_list :: "'a option \<Rightarrow> 'a list" where
  "opt_list None = []"
| "opt_list (Some x) = [x]"

subsection \<open>The four XPath expressions of the scraper\<close>

text \<open>
  XPath returns a node set in document order, which for elements is the pre-order of
  the tree. \<^verbatim>\<open>//b/a/@href\<close>: the \<^verbatim>\<open>href\<close> attribute of every \<^verbatim>\<open>a\<close> element whose
  parent is a \<^verbatim>\<open>b\<close> element. The traversal carries the tag of the parent, \<open>None\<close> for
  the document node above the root.
\<close>

fun hrefs_under :: "pystr option \<Rightarrow> node \<Rightarrow> pystr list" where
  "hrefs_under parent (Comment _ _) = []"
| "hrefs_under parent (Element t attrs tx cs after) =
     (if parent = Some (ustr ''b'') \<and> t = ustr ''a''
      then opt_list (map_of attrs (ustr ''href'')) else [])
     @ concat (map (hrefs_under (Some t)) cs)"

definition xpath_b_a_href :: "node \<Rightarrow> pystr list" where
  "xpath_b_a_href tree = hrefs_under None tree"

text \<open>\<^verbatim>\<open>//center\<close>: every \<^verbatim>\<open>center\<close> element of the document, the root included.\<close>

fun descendant_or_self :: "node \<Rightarrow> node list" where
  "descendant_or_self (Comment c after) = []"
| "descendant_or_self (Element t attrs tx cs after) =
     Element t attrs tx cs after # concat (map descendant_or_self cs)"

definition xpath_center :: "node \<Rightarrow> node list" where
  "xpath_center tree = filter (has_tag (ustr ''center'')) (descendant_or_self tree)"

text \<open>\<^verbatim>\<open>b\<close>, relative to an element: its child elements named \<^verbatim>\<open>b\<close>.\<close>

definition xpath_b :: "node \<Rightarrow> node list" where
  "xpath_b n = filter (has_tag (ustr ''b'')) (child_nodes n)"

text \<open>
  \<^verbatim>\<open>text()\<close>, relative to an element: its child text nodes, that is its own
  \<^verbatim>\<open>.text\<close> and the \<^verbatim>\<open>.tail\<close> of each of its children. Text inside a child element
  is a child of that child and is not selected.
\<close>

fun xpath_text :: "node \<Rightarrow> pystr list" where
  "xpath_text (Comment _ _) = []"
| "xpath_text (Element t attrs tx cs after) = opt_list tx @ concat (map (\<lambda>c. opt_list (etail c)) cs)"

text \<open>
  Two readings of where an anchor with the href \<open>h\<close> sits. In the first, the one of
  \<^verbatim>\<open>//b/a/@href\<close>, the element \<open>p\<close> is a \<^verbatim>\<open>b\<close> element and the anchor is one of
  its children. In the second the anchor is anywhere below the \<^verbatim>\<open>b\<close> element \<open>p\<close>.
\<close>

definition bold_anchor_href :: "node \<Rightarrow> pystr \<Rightarrow> bool" where
  "bold_anchor_href p h =
     (has_tag (ustr ''b'') p
      \<and> (\<exists>a\<in>set (child_nodes p). has_tag (ustr ''a'') a \<and> attr (ustr ''href'') a = Some h))"

definition bold_nested_href :: "node \<Rightarrow> pystr \<Rightarrow> bool" where
  "bold_nested_href p h =
     (has_tag (ustr ''b'') p
      \<and> (\<exists>c\<in>set (child_nodes p). \<exists>a\<in>set (descendant_or_self c).
            has_tag (ustr ''a'') a \<and> attr (ustr ''href'') a = Some h))"

section \<open>Identifier extraction\<close>

text \<open>
  The loop of \<^verbatim>\<open>scrape_results_page\<close> over the hrefs, with \<^verbatim>\<open>bid_ids\<close> as the
  accumulator: a href without a match is skipped, a matched identifier is appended.
\<close>

fun collect_bid_ids :: "(codepoint \<Rightarrow> bool) \<Rightarrow> pystr list \<Rightarrow> pystr list \<Rightarrow> pystr list" where
  "collect_bid_ids D [] bid_ids = bid_ids"
| "collect_bid_ids D (bid_id_url # urls) bid_ids =
     (case get_bid_id D bid_id_url of
        None \<Rightarrow> collect_bid_ids D urls bid_ids
      | Some bid_id \<Rightarrow> collect_bid_ids D urls (bid_ids @ [strip (join_empty (chars_of bid_id))]))"

text \<open>\<^verbatim>\<open>scrape_results_page\<close>: the error of the parser, if it raises, is not caught.\<close>

definition scrape_results_page :: "(codepoint \<Rightarrow> bool) \<Rightarrow> page_content \<Rightarrow> exn + pystr list" where
  "scrape_results_page D page_str =
     (case html_fromstring page_str of
        Inl exc \<Rightarrow> Inl exc
      | Inr tree \<Rightarrow> Inr (collect_bid_ids D (xpath_b_a_href tree) []))"

section \<open>Detail pages\<close>

text \<open>
  Modelled from the spec: the module \<^verbatim>\<open>bid\<close> with the class \<^verbatim>\<open>Bid\<close> and its
  enumeration \<^verbatim>\<open>Bid.Site\<close> is not among the sources. A bid has the four fields the
  scraper passes to the constructor; \<^verbatim>\<open>site\<close> holds the symbolic name of the site.
\<close>

datatype site = CITYOFBOSTON

fun site_name :: "site \<Rightarrow> pystr" where
  "site_name CITYOFBOSTON = ustr ''CITYOFBOSTON''"

record bid =
  bid_identifier :: pystr \<comment> \<open>\<^verbatim>\<open>identifier\<close> in the source\<close>
  description :: pystr
  items :: "pystr list"
  site :: pystr

definition get_site :: site where
  "get_site = CITYOFBOSTON"

text \<open>
  \<^verbatim>\<open>scrape_bid_page\<close>. The parser may raise; indexing an empty result list with
  \<^verbatim>\<open>[0]\<close> raises IndexError; \<^verbatim>\<open>.text.strip()\<close> on an element without leading text
  raises AttributeError, before the items are computed.
\<close>

definition scrape_bid_page :: "page_content \<Rightarrow> pystr \<Rightarrow> exn + bid" where
  "scrape_bid_page page bid_id =
     (case html_fromstring page of
        Inl exc \<Rightarrow> Inl exc
      | Inr tree \<Rightarrow>
          (case xpath_center tree of
             [] \<Rightarrow> Inl IndexError
           | first_center # _ \<Rightarrow>
               (case xpath_b first_center of
                  [] \<Rightarrow> Inl IndexError
                | start_text_element # _ \<Rightarrow>
                    (case etext start_text_element of
                       None \<Rightarrow> Inl AttributeError
                     | Some t \<Rightarrow>
                         Inr \<lparr>bid_identifier = bid_id,
                              description = strip t,
                              items = [join_empty (xpath_text first_center)],
                              site = site_name get_site\<rparr>))))"

section \<open>The run\<close>

text \<open>
  What a run does to the outside is recorded as a trace of events; the session keeps
  the bids added and not yet committed, the store the committed ones.
\<close>

datatype event =
  GetListing
| LogInfoIds "pystr list"
| QueryKnown "pystr list"
| GetDetail pystr
| LogError exn
| LogInfoBid bid
| SessionAdd bid
| Commit

record run_state =
  trace :: "event list"
  pending :: "bid list"
  store :: "bid list"

definition emit :: "event \<Rightarrow> run_state \<Rightarrow> run_state" where
  "emit e st = st\<lparr>trace := trace st @ [e]\<rparr>"

definition session_add :: "bid \<Rightarrow> run_state \<Rightarrow> run_state" where
  "session_add b st = (emit (SessionAdd b) st)\<lparr>pending := pending st @ [b]\<rparr>"

text \<open>\<^verbatim>\<open>session.commit()\<close> writes the pending bids to the store; it is taken to succeed.\<close>

definition session_commit :: "run_state \<Rightarrow> run_state" where
  "session_commit st = (emit Commit st)\<lparr>store := store st @ pending st, pending := []\<rparr>"

text \<open>
  A future holds what \<^verbatim>\<open>get_details_for_bid\<close> returned, the page with the
  identifier, or the exception it raised.
\<close>

type_synonym future = "exn + page_content \<times> pystr"

text \<open>
  The outside of the scraper: the answer to the request for the results page, the
  answer to the request for the detail page of an identifier, the query
  \<^verbatim>\<open>get_new_identifiers\<close> of the module \<^verbatim>\<open>bid\<close>, and the order in which
  \<^verbatim>\<open>as_completed\<close> yields the futures.
\<close>

record env =
  get_results :: "exn + page_content"
  get_details :: "pystr \<Rightarrow> exn + page_content"
  get_new_identifiers :: "pystr list \<Rightarrow> exn + pystr list"
  as_completed :: "future list \<Rightarrow> future list"

definition get_details_for_bid :: "env \<Rightarrow> pystr \<Rightarrow> future" where
  "get_details_for_bid E bid_id =
     (case get_details E bid_id of
        Inl exc \<Rightarrow> Inl exc
      | Inr page \<Rightarrow> Inr (page, bid_id))"

text \<open>
  The loop over the completed futures. The parse is in the \<^verbatim>\<open>else\<close> branch of the
  \<^verbatim>\<open>try\<close>: only an exception of \<^verbatim>\<open>future.result()\<close> is caught.
\<close>

fun collect_results :: "future list \<Rightarrow> run_state \<Rightarrow> (exn + unit) \<times> run_state" where
  "collect_results [] st = (Inr (), st)"
| "collect_results (future # futures) st =
     (case future of
        Inl exc \<Rightarrow> collect_results futures (emit (LogError exc) st)
      | Inr (bid_page, bid_id) \<Rightarrow>
          (case scrape_bid_page bid_page bid_id of
             Inl exc \<Rightarrow> (Inl exc, st)
           | Inr b \<Rightarrow> collect_results futures (session_add b (emit (LogInfoBid b) st))))"

text \<open>
  \<^verbatim>\<open>process_new_bids\<close>: every identifier is submitted to the pool before the first
  result is read; \<open>GetDetail\<close> marks the submission, the request itself is made by a
  worker thread between the submission and the completion of the future.
\<close>

definition process_new_bids :: "env \<Rightarrow> pystr list \<Rightarrow> run_state \<Rightarrow> (exn + unit) \<times> run_state" where
  "process_new_bids E new_ids st =
     (let futures = map (get_details_for_bid E) new_ids;
          st' = fold (\<lambda>bid_id. emit (GetDetail bid_id)) new_ids st
      in collect_results (as_completed E futures) st')"

text \<open>
  \<^verbatim>\<open>scrape\<close>, from a fresh session over the store \<open>db\<close>. An error of the request
  for the listing, of the parse of the listing or of the query ends the run.
\<close>

definition scrape :: "(codepoint \<Rightarrow> bool) \<Rightarrow> env \<Rightarrow> bid list \<Rightarrow> (exn + unit) \<times> run_state" where
  "scrape D E db =
     (let st = emit GetListing \<lparr>trace = [], pending = [], store = db\<rparr>
      in case get_results E of
           Inl exc \<Rightarrow> (Inl exc, st)
         | Inr page \<Rightarrow>
             (case scrape_results_page D page of
                Inl exc \<Rightarrow> (Inl exc, st)
              | Inr bid_ids \<Rightarrow>
                  (let st = emit (LogInfoIds bid_ids) st;
                       st = emit (QueryKnown bid_ids) st
                   in case get_new_identifiers E bid_ids of
                        Inl exc \<Rightarrow> (Inl exc, st)
                      | Inr new_ids \<Rightarrow>
                          (case process_new_bids E new_ids st of
                             (Inl exc, st) \<Rightarrow> (Inl exc, st)
                           | (Inr _, st) \<Rightarrow> (Inr (), session_commit st)))))"

section \<open>Fixtures\<close>

text \<open>A listing with two bid links and one other link, each inside a bold element.\<close>

definition listing_fixture :: node where
  "listing_fixture =
     Element (ustr ''html'') [] None
       [Element (ustr ''body'') [] None
          [Element (ustr ''b'') [] None
             [Element (ustr ''a'') [(ustr ''href'', ustr ''bids.asp?ID=101'')]
                (Some (ustr ''Road salt'')) [] None] None,
           Element (ustr ''b'') [] None
             [Element (ustr ''a'') [(ustr ''href'', ustr ''home.asp'')]
                (Some (ustr ''Home'')) [] None] None,
           Element (ustr ''b'') [] None
             [Element (ustr ''a'') [(ustr ''href'', ustr ''bids.asp?ID=202'')]
                (Some (ustr ''Plows'')) [] None] None]
          None]
       None"

text \<open>
  A listing whose only bid link is inside a bold element without being its child:
  \<^verbatim>\<open><b><i><a href="bids.asp?ID=101">Road salt</a></i></b>\<close>.
\<close>

definition nested_bold :: node where
  "nested_bold =
     Element (ustr ''b'') [] None
       [Element (ustr ''i'') [] None
          [Element (ustr ''a'') [(ustr ''href'', ustr ''bids.asp?ID=101'')]
             (Some (ustr ''Road salt'')) [] None] None] None"

definition nested_listing :: node where
  "nested_listing =
     Element (ustr ''html'') [] None [Element (ustr ''body'') [] None [nested_bold] None] None"

text \<open>A listing whose only link, in a bold element, is not a bid link.\<close>

definition nav_listing :: node where
  "nav_listing =
     Element (ustr ''b'') [] None
       [Element (ustr ''a'') [(ustr ''href'', ustr ''home.asp'')] None [] None] None"

text \<open>
  The detail page whose first centered block is
  \<^verbatim>\<open><center><b>Snow Removal</b> Contract for winter 2024</center>\<close>.
\<close>

definition detail_fixture :: node where
  "detail_fixture =
     Element (ustr ''html'') [] None
       [Element (ustr ''body'') [] None
          [Element (ustr ''center'') [] None
             [Element (ustr ''b'') [] (Some (ustr ''Snow Removal'')) []
                (Some (ustr '' Contract for winter 2024''))]
             None]
          None]
       None"

text \<open>A detail page without a centered block.\<close>

definition bare_page :: node where
  "bare_page =
     Element (ustr ''html'') [] None
       [Element (ustr ''body'') [] (Some (ustr ''moved'')) [] None] None"

text \<open>
  Three surroundings for a run over the listing above: one where the detail page of
  \<^verbatim>\<open>101\<close> has no centered block and the futures complete in the order of
  submission, one where the request for the detail page of \<^verbatim>\<open>202\<close> fails and the
  futures complete in reverse order, and one where the request for the listing fails.
\<close>

definition parse_failure_env :: env where
  "parse_failure_env =
     \<lparr>get_results = Inr (Document listing_fixture),
      get_details = (\<lambda>i. if i = ustr ''101'' then Inr (Document bare_page)
                          else Inr (Document detail_fixture)),
      get_new_identifiers = (\<lambda>ids. Inr ids),
      as_completed = (\<lambda>fs. fs)\<rparr>"

definition fetch_failure_env :: env where
  "fetch_failure_env =
     \<lparr>get_results = Inr (Document listing_fixture),
      get_details = (\<lambda>i. if i = ustr ''202'' then Inl TransportFailure
                          else Inr (Document detail_fixture)),
      get_new_identifiers = (\<lambda>ids. Inr ids),
      as_completed = rev\<rparr>"

definition listing_failure_env :: env where
  "listing_failure_env =
     \<lparr>get_results = Inl TransportFailure,
      get_details = (\<lambda>i. Inr (Document detail_fixture)),
      get_new_identifiers = (\<lambda>ids. Inr ids),
      as_completed = (\<lambda>fs. fs)\<rparr>"

definition fresh_state :: run_state where
  "fresh_state = \<lparr>trace = [], pending = [], store = []\<rparr>"

section \<open>Observations on runs\<close>

fun is_commit :: "event \<Rightarrow> bool" where
  "is_commit Commit = True"
| "is_commit _ = False"

fun is_query :: "event \<Rightarrow> bool" where
  "is_query (QueryKnown _) = True"
| "is_query _ = False"

fun is_error :: "event \<Rightarrow> bool" where
  "is_error (LogError _) = True"
| "is_error _ = False"

text \<open>What the loop does for one completed future whose parse, if any, succeeds.\<close>

fun parse_ok :: "future \<Rightarrow> bool" where
  "parse_ok (Inl exc) = True"
| "parse_ok (Inr (page, bid_id)) = (case scrape_bid_page page bid_id of Inl _ \<Rightarrow> False | Inr _ \<Rightarrow> True)"

fun bids_of :: "future \<Rightarrow> bid list" where
  "bids_of (Inl exc) = []"
| "bids_of (Inr (page, bid_id)) = (case scrape_bid_page page bid_id of Inl _ \<Rightarrow> [] | Inr b \<Rightarrow> [b])"

fun events_of :: "future \<Rightarrow> event list" where
  "events_of (Inl exc) = [LogError exc]"
| "events_of (Inr (page, bid_id)) =
     (case scrape_bid_page page bid_id of Inl _ \<Rightarrow> [] | Inr b \<Rightarrow> [LogInfoBid b, SessionAdd b])"

section \<open>The pattern, characterised\<close>

lemma plus_greedy_last:
  "plus_greedy D a (\<lambda>m rest. Some (gs @ [m])) acc s =
     (if takeWhile (atom_matches D a) s = [] then None
      else Some (gs @ [acc @ takeWhile (atom_matches D a) s]))"
proof (induction s arbitrary: acc)
  case Nil
  show ?case by simp
next
  case (Cons c cs)
  show ?case
  proof (cases "atom_matches D a c")
    case False
    then show ?thesis by simp
  next
    case True
    show ?thesis
    proof (cases "takeWhile (atom_matches D a) cs = []")
      case True
      with \<open>atom_matches D a c\<close> Cons.IH [of "acc @ [c]"] show ?thesis by simp
    next
      case False
      with \<open>atom_matches D a c\<close> Cons.IH [of "acc @ [c]"] show ?thesis by simp
    qed
  qed
qed

lemma re_match_literals:
  "re_match D (map (\<lambda>c. One (Lit c)) p @ r) s gs =
     (if take (length p) s = p then re_match D r (drop (length p) s) gs else None)"
proof (induction p arbitrary: s)
  case Nil
  show ?case by simp
next
  case (Cons x xs)
  show ?case
  proof (cases s)
    case Nil
    then show ?thesis by simp
  next
    case (Cons c cs)
    with Cons.IH [of cs] show ?thesis by auto
  qed
qed

lemma detail_link_length: "length detail_link = 12"
  by (simp add: detail_link_def ustr_def)

lemma get_bid_id_eq:
  "get_bid_id D href =
     (if take 12 href = detail_link \<and> takeWhile D (drop 12 href) \<noteq> []
      then Some (takeWhile D (drop 12 href)) else None)"
proof -
  have am: "atom_matches D Digit = D"
    by (rule ext) simp
  have "re_match D [GroupPlus Digit] s [] =
          (if takeWhile D s = [] then None else Some [takeWhile D s])" for s
    using plus_greedy_last [of D Digit "[]" "[]" s] by (simp add: am)
  then show ?thesis
    unfolding get_bid_id_def compiled_reg_exp_def re_match_literals detail_link_length
    by simp
qed

lemma takeWhile_digits_ne:
  "(takeWhile P xs \<noteq> []) = (\<exists>d rest. xs = d # rest \<and> P d)"
  by (cases xs) auto

lemma prefix_split:
  "(take (length p) s = p \<and> (\<exists>d rest. drop (length p) s = d # rest \<and> P d))
     = (\<exists>d rest. s = p @ d # rest \<and> P d)"
proof
  assume a: "take (length p) s = p \<and> (\<exists>d rest. drop (length p) s = d # rest \<and> P d)"
  then obtain d rest where d: "drop (length p) s = d # rest" "P d" by blast
  have "s = take (length p) s @ drop (length p) s" by simp
  with a d have "s = p @ d # rest" by metis
  with d show "\<exists>d rest. s = p @ d # rest \<and> P d" by blast
next
  assume "\<exists>d rest. s = p @ d # rest \<and> P d"
  then show "take (length p) s = p \<and> (\<exists>d rest. drop (length p) s = d # rest \<and> P d)"
    by auto
qed

section \<open>The accepted hrefs\<close>

text \<open>
  C10. \<^verbatim>\<open>get_bid_id\<close> accepts a href exactly when it starts with the literal
  \<^verbatim>\<open>bids.asp?ID=\<close> followed by at least one decimal digit, a character of the class
  \<^verbatim>\<open>\d\<close>; the identifier returned is the longest run of such digits after that
  prefix and is not empty. The pattern is tried at the start of the href only:
  \<^verbatim>\<open>/purchasing/bids.asp?ID=5\<close> is not accepted. This holds whatever the digit
  class of the interpreter is.
\<close>

theorem get_bid_id_accepts:
  "(get_bid_id D href \<noteq> None) = (\<exists>d rest. href = ustr ''bids.asp?ID='' @ d # rest \<and> D d)
   \<and> (\<forall>ident. get_bid_id D href = Some ident \<longrightarrow>
         ident \<noteq> [] \<and> ident = takeWhile D (drop (length (ustr ''bids.asp?ID='')) href))
   \<and> get_bid_id D (ustr ''/purchasing/bids.asp?ID=5'') = None"
proof -
  have "(get_bid_id D href \<noteq> None) =
          (take (length detail_link) href = detail_link
           \<and> (\<exists>d rest. drop (length detail_link) href = d # rest \<and> D d))"
    by (simp add: get_bid_id_eq takeWhile_digits_ne detail_link_length)
  also have "\<dots> = (\<exists>d rest. href = detail_link @ d # rest \<and> D d)"
    by (rule prefix_split)
  finally have accept: "(get_bid_id D href \<noteq> None) =
      (\<exists>d rest. href = ustr ''bids.asp?ID='' @ d # rest \<and> D d)"
    by (simp only: detail_link_def)
  have "length (ustr ''bids.asp?ID='') = 12"
    using detail_link_length by (simp only: detail_link_def)
  then have run: "\<forall>ident. get_bid_id D href = Some ident \<longrightarrow>
         ident \<noteq> [] \<and> ident = takeWhile D (drop (length (ustr ''bids.asp?ID='')) href)"
    by (auto simp: get_bid_id_eq split: if_splits)
  have skipped: "get_bid_id D (ustr ''/purchasing/bids.asp?ID=5'') = None"
    by (simp add: get_bid_id_eq detail_link_def ustr_def)
  from accept run skipped show ?thesis by blast
qed

theorem get_bid_id_accepts_witness:
  "get_bid_id sample_digit (ustr ''bids.asp?ID=4'' @ 1635 # ustr ''x7'') = Some (ustr ''4'' @ [1635])
   \<and> get_bid_id ascii_digit (ustr ''bids.asp?ID=4'' @ 1635 # ustr ''x7'') = Some (ustr ''4'')
   \<and> get_bid_id sample_digit (ustr ''bids.asp?ID='') = None"
proof -
  let ?h = "ustr ''bids.asp?ID=4'' @ 1635 # ustr ''x7''"
  have split: "?h = ustr ''bids.asp?ID='' @ 52 # (1635 # ustr ''x7'')"
    by (simp add: ustr_def)
  have len: "length (ustr ''bids.asp?ID='') = 12"
    by (simp add: ustr_def)
  have "sample_digit 52" by (simp add: sample_digit_def)
  with split have "\<exists>d rest. ?h = ustr ''bids.asp?ID='' @ d # rest \<and> sample_digit d"
    by blast
  with get_bid_id_accepts [of sample_digit ?h]
  obtain i where i: "get_bid_id sample_digit ?h = Some i" by auto
  with get_bid_id_accepts [of sample_digit ?h]
  have "i = takeWhile sample_digit (drop (length (ustr ''bids.asp?ID='')) ?h)" by blast
  then have "i = ustr ''4'' @ [1635]"
    unfolding len by (simp add: ustr_def sample_digit_def)
  with i have one: "get_bid_id sample_digit ?h = Some (ustr ''4'' @ [1635])" by simp
  have "ascii_digit 52" by (simp add: ascii_digit_def)
  with split have "\<exists>d rest. ?h = ustr ''bids.asp?ID='' @ d # rest \<and> ascii_digit d"
    by blast
  with get_bid_id_accepts [of ascii_digit ?h]
  obtain j where j: "get_bid_id ascii_digit ?h = Some j" by auto
  with get_bid_id_accepts [of ascii_digit ?h]
  have "j = takeWhile ascii_digit (drop (length (ustr ''bids.asp?ID='')) ?h)" by blast
  then have "j = ustr ''4''"
    unfolding len by (simp add: ustr_def ascii_digit_def)
  with j have two: "get_bid_id ascii_digit ?h = Some (ustr ''4'')" by simp
  have "\<not> (\<exists>d rest. ustr ''bids.asp?ID='' = ustr ''bids.asp?ID='' @ d # rest \<and> sample_digit d)"
    by simp
  with get_bid_id_accepts [of sample_digit "ustr ''bids.asp?ID=''"]
  have three: "get_bid_id sample_digit (ustr ''bids.asp?ID='') = None" by blast
  from one two three show ?thesis by blast
qed

end
